theory Spec2Isabelle
  imports Complex_Main
begin

section \<open>Python values\<close>

text \<open>
  The module \<^verbatim>\<open>tiingo.py\<close> is embedded function by function. What the module does beyond
  returning values (HTTP requests, log lines, the files of the cache directory) is threaded
  through an explicit world; every \<^verbatim>\<open>raise\<close> is a value \<open>Inl e\<close> of a sum type.

  A decoded JSON document is the Python value \<^verbatim>\<open>response.json()\<close> returns. The module does
  no arithmetic on the numbers of a document, it only passes them on, so a Python float is
  represented by the real number it denotes. The items of a \<open>JObj\<close> are the items of the
  Python dict, in insertion order, with distinct keys.
\<close>

datatype json =
    JNull
  | JBool bool
  | JInt int
  | JFloat real
  | JStr string
  | JArr "json list"
  | JObj "(string \<times> json) list"

text \<open>
  The exceptions the module can surface. \<open>Exception msg\<close> is an instance of the built-in
  class \<^verbatim>\<open>Exception\<close> with the single argument \<open>msg\<close>; the others are raised by the
  interpreter or by libraries: a missing dict key, a subscript or iteration of a value that
  does not support it, a string that is no ISO date, a body that is no JSON document, a
  request that got no response, a failure of the parquet engine, and a failure of the file
  system.
\<close>

datatype error =
    Exception string
  | KeyError string
  | TypeError
  | ValueError
  | JSONDecodeError
  | RequestException string
  | ArrowError string
  | OSError string

text \<open>Line 18: \<^verbatim>\<open>ErrorTickerNotFound = Exception("Ticker not found")\<close>, evaluated once, when
  the module is loaded. It takes no argument, so the value cannot depend on a call.\<close>

definition ErrorTickerNotFound :: error where
  "ErrorTickerNotFound = Exception ''Ticker not found''"

text \<open>\<^verbatim>\<open>json[key]\<close> with a string key: a dict looks the key up and raises \<^verbatim>\<open>KeyError\<close> when it
  is missing; a list, a string, a number, a boolean and \<^verbatim>\<open>None\<close> raise \<^verbatim>\<open>TypeError\<close>.\<close>

fun subscript :: "json \<Rightarrow> string \<Rightarrow> error + json" where
  "subscript (JObj kvs) k = (case map_of kvs k of None \<Rightarrow> Inl (KeyError k) | Some v \<Rightarrow> Inr v)"
| "subscript _ k = Inl TypeError"

text \<open>\<^verbatim>\<open>for p in value\<close>: a list yields its elements, a dict its keys, a string its
  characters (each a string of length one); any other value is not iterable.\<close>

fun iterate :: "json \<Rightarrow> error + json list" where
  "iterate (JArr xs) = Inr xs"
| "iterate (JObj kvs) = Inr (map (\<lambda>kv. JStr (fst kv)) kvs)"
| "iterate (JStr s) = Inr (map (\<lambda>c. JStr [c]) s)"
| "iterate _ = Inl TypeError"

section \<open>Calendar dates\<close>

datatype date = Date (year: nat) (month: nat) (day: nat)

definition date_less :: "date \<Rightarrow> date \<Rightarrow> bool" where
  "date_less a b \<longleftrightarrow>
     year a < year b \<or> (year a = year b \<and> (month a < month b \<or> (month a = month b \<and> day a < day b)))"

definition date_min :: "date \<Rightarrow> date \<Rightarrow> date" where
  "date_min a b = (if date_less b a then b else a)"

definition date_max :: "date \<Rightarrow> date \<Rightarrow> date" where
  "date_max a b = (if date_less a b then b else a)"

definition is_leap :: "nat \<Rightarrow> bool" where
  "is_leap y \<longleftrightarrow> y mod 4 = 0 \<and> (y mod 100 \<noteq> 0 \<or> y mod 400 = 0)"

definition days_in_month :: "nat \<Rightarrow> nat \<Rightarrow> nat" where
  "days_in_month y m =
     (if m = 2 then (if is_leap y then 29 else 28)
      else if m = 4 \<or> m = 6 \<or> m = 9 \<or> m = 11 then 30 else 31)"

text \<open>The constructor \<^verbatim>\<open>date(y, m, d)\<close> raises \<^verbatim>\<open>ValueError\<close> outside years 1 to 9999, months
  1 to 12 and the days of the month.\<close>

definition make_date :: "nat \<Rightarrow> nat \<Rightarrow> nat \<Rightarrow> error + date" where
  "make_date y m d =
     (if 1 \<le> y \<and> y \<le> 9999 \<and> 1 \<le> m \<and> m \<le> 12 \<and> 1 \<le> d \<and> d \<le> days_in_month y m
      then Inr (Date y m d) else Inl ValueError)"

definition digit_val :: "char \<Rightarrow> nat option" where
  "digit_val c = map_of (zip ''0123456789'' [0, 1, 2, 3, 4, 5, 6, 7, 8, 9]) c"

text \<open>The value of a string of decimal digits, most significant first; \<open>None\<close> when a
  character is no digit. The accumulator is the value read so far.\<close>

fun digits_val :: "nat \<Rightarrow> string \<Rightarrow> nat option" where
  "digits_val acc [] = Some acc"
| "digits_val acc (c # cs) =
     (case digit_val c of None \<Rightarrow> None | Some d \<Rightarrow> digits_val (10 * acc + d) cs)"

definition number :: "string \<Rightarrow> nat option" where
  "number s = (if s = [] then None else digits_val 0 s)"

text \<open>
  Library model of the ISO-8601 readers, for the extended calendar form \<^verbatim>\<open>YYYY-MM-DD\<close>, the
  form the provider sends and the spec names. \<open>iso_date\<close> reads exactly ten characters.
  The basic and week forms newer interpreters also accept are not modelled: the model
  answers \<^verbatim>\<open>ValueError\<close> for them.
\<close>

definition iso_date :: "string \<Rightarrow> error + date" where
  "iso_date s =
     (if length s = 10 \<and> s ! 4 = CHR ''-'' \<and> s ! 7 = CHR ''-'' then
        (case (number (take 4 s), number (take 2 (drop 5 s)), number (drop 8 s)) of
           (Some y, Some m, Some d) \<Rightarrow> make_date y m d
         | _ \<Rightarrow> Inl ValueError)
      else Inl ValueError)"

text \<open>\<^verbatim>\<open>date.fromisoformat(v)\<close>: the argument must be a string.\<close>

fun date_fromisoformat :: "json \<Rightarrow> error + date" where
  "date_fromisoformat (JStr s) = iso_date s"
| "date_fromisoformat _ = Inl TypeError"

text \<open>A two-digit field below a bound (hours below 24, minutes and seconds below 60).\<close>

definition field_ok :: "nat \<Rightarrow> string \<Rightarrow> bool" where
  "field_ok bound s = (length s = 2 \<and> (case number s of None \<Rightarrow> False | Some v \<Rightarrow> v < bound))"

text \<open>The clock part \<^verbatim>\<open>HH[:MM[:SS[.f...]]]\<close>.\<close>

definition clock_ok :: "string \<Rightarrow> bool" where
  "clock_ok s =
     (field_ok 24 (take 2 s) \<and>
      (length s = 2 \<or>
       (s ! 2 = CHR '':'' \<and> field_ok 60 (take 2 (drop 3 s)) \<and>
        (length s = 5 \<or>
         (s ! 5 = CHR '':'' \<and> field_ok 60 (take 2 (drop 6 s)) \<and>
          (length s = 8 \<or>
           ((s ! 8 = CHR ''.'' \<or> s ! 8 = CHR '','') \<and> number (drop 9 s) \<noteq> None)))))))"

text \<open>The zone suffix: none, \<^verbatim>\<open>Z\<close>, or \<^verbatim>\<open>+HH:MM\<close> / \<^verbatim>\<open>-HH:MM\<close>.\<close>

definition zone_ok :: "string \<Rightarrow> bool" where
  "zone_ok z =
     (z = [] \<or> z = ''Z'' \<or>
      (length z = 6 \<and> (z ! 0 = CHR ''+'' \<or> z ! 0 = CHR ''-'') \<and> field_ok 24 (take 2 (drop 1 z)) \<and>
       z ! 3 = CHR '':'' \<and> field_ok 60 (drop 4 z)))"

definition is_zone_start :: "char \<Rightarrow> bool" where
  "is_zone_start c \<longleftrightarrow> c = CHR ''Z'' \<or> c = CHR ''+'' \<or> c = CHR ''-''"

definition time_ok :: "string \<Rightarrow> bool" where
  "time_ok t =
     (clock_ok (takeWhile (\<lambda>c. \<not> is_zone_start c) t) \<and>
      zone_ok (dropWhile (\<lambda>c. \<not> is_zone_start c) t))"

text \<open>\<^verbatim>\<open>datetime.fromisoformat(v).date()\<close>: the calendar date, followed by nothing or by one
  separator character and a time; the time is checked and then dropped by \<^verbatim>\<open>.date()\<close>.\<close>

fun datetime_fromisoformat_date :: "json \<Rightarrow> error + date" where
  "datetime_fromisoformat_date (JStr s) =
     (if length s \<le> 10 then iso_date s
      else if time_ok (drop 11 s) then iso_date (take 10 s)
      else Inl ValueError)"
| "datetime_fromisoformat_date _ = Inl TypeError"

text \<open>\<^verbatim>\<open>date.isoformat()\<close>, also what an f-string prints for a date: \<^verbatim>\<open>%04d-%02d-%02d\<close>.\<close>

definition digit_char :: "nat \<Rightarrow> char" where
  "digit_char n = ''0123456789'' ! (n mod 10)"

fun str_nat :: "nat \<Rightarrow> string" where
  "str_nat n = (if n < 10 then [digit_char n] else str_nat (n div 10) @ [digit_char n])"

definition str_int :: "int \<Rightarrow> string" where
  "str_int i = (if i < 0 then CHR ''-'' # str_nat (nat (- i)) else str_nat (nat i))"

definition zero_pad :: "nat \<Rightarrow> string \<Rightarrow> string" where
  "zero_pad w s = replicate (w - length s) CHR ''0'' @ s"

definition isoformat :: "date \<Rightarrow> string" where
  "isoformat d =
     zero_pad 4 (str_nat (year d)) @ ''-'' @ zero_pad 2 (str_nat (month d)) @ ''-'' @
     zero_pad 2 (str_nat (day d))"

section \<open>TickerPrice\<close>

text \<open>Lines 20 to 34. A dataclass does not check the annotated types: \<^verbatim>\<open>from_json\<close> stores
  whatever value the document holds, so every field but \<open>date\<close> is a JSON value.\<close>

record TickerPrice =
  date :: date
  "open" :: json
  high :: json
  low :: json
  close :: json
  volume :: json
  adjusted_open :: json
  adjusted_high :: json
  adjusted_low :: json
  adjusted_close :: json
  adjusted_volume :: json
  dividend_cash :: json
  split_factor :: json

text \<open>Sequencing of statements that may raise: the first exception ends the evaluation.\<close>

definition bind :: "error + 'a \<Rightarrow> ('a \<Rightarrow> error + 'b) \<Rightarrow> error + 'b" where
  "bind m f = (case m of Inl e \<Rightarrow> Inl e | Inr x \<Rightarrow> f x)"

text \<open>Lines 36 to 52. The keyword arguments are evaluated in the order written, so the first
  failing one decides the exception.\<close>

definition from_json :: "json \<Rightarrow> error + TickerPrice" where
  "from_json json =
     bind (subscript json ''date'') (\<lambda>v_date.
     bind (datetime_fromisoformat_date v_date) (\<lambda>d.
     bind (subscript json ''open'') (\<lambda>v_open.
     bind (subscript json ''high'') (\<lambda>v_high.
     bind (subscript json ''low'') (\<lambda>v_low.
     bind (subscript json ''close'') (\<lambda>v_close.
     bind (subscript json ''volume'') (\<lambda>v_volume.
     bind (subscript json ''adjOpen'') (\<lambda>v_adj_open.
     bind (subscript json ''adjHigh'') (\<lambda>v_adj_high.
     bind (subscript json ''adjLow'') (\<lambda>v_adj_low.
     bind (subscript json ''adjClose'') (\<lambda>v_adj_close.
     bind (subscript json ''adjVolume'') (\<lambda>v_adj_volume.
     bind (subscript json ''divCash'') (\<lambda>v_div_cash.
     bind (subscript json ''splitFactor'') (\<lambda>v_split.
     Inr \<lparr>date = d, open = v_open, high = v_high, low = v_low, close = v_close,
          volume = v_volume, adjusted_open = v_adj_open, adjusted_high = v_adj_high,
          adjusted_low = v_adj_low, adjusted_close = v_adj_close,
          adjusted_volume = v_adj_volume, dividend_cash = v_div_cash,
          split_factor = v_split\<rparr>))))))))))))))"

section \<open>The world outside the module\<close>

text \<open>
  A request as \<^verbatim>\<open>requests.get(url, params=..., headers=...)\<close> sends it, and the part of a
  response the module reads: the status code, the body as text, and what
  \<^verbatim>\<open>response.json()\<close> decodes the body to (\<open>None\<close> when the body is no JSON document).
\<close>

record request =
  req_url :: string
  req_params :: "(string \<times> string) list"
  req_headers :: "(string \<times> string) list"

record response =
  status_code :: int
  text_body :: string
  json_body :: "json option"

datatype level = INFO | ERROR

type_synonym path = "string list"

text \<open>What the module does to the outside, in the order it does it.\<close>

datatype event =
    Log level string
  | HttpGet request
  | WriteFile path

text \<open>A path of the file system names a directory or a file; \<open>'b\<close> is the type of a file's
  content (its bytes).\<close>

datatype 'b node = Dir | File 'b

text \<open>
  The world: the provider answers a request with a response, or with the description of a
  network failure; the file system maps a path to what is there; the trace collects the
  events. The module is single-threaded, so nothing else changes the world during a call.
\<close>

record 'b world =
  provider :: "request \<Rightarrow> string + response"
  fs :: "path \<Rightarrow> 'b node option"
  trace :: "event list"

definition logger_info :: "string \<Rightarrow> 'b world \<Rightarrow> 'b world" where
  "logger_info msg w = w\<lparr>trace := trace w @ [Log INFO msg]\<rparr>"

definition logger_error :: "string \<Rightarrow> 'b world \<Rightarrow> 'b world" where
  "logger_error msg w = w\<lparr>trace := trace w @ [Log ERROR msg]\<rparr>"

definition requests_get :: "request \<Rightarrow> 'b world \<Rightarrow> (error + response) \<times> 'b world" where
  "requests_get req w =
     ((case provider w req of Inl msg \<Rightarrow> Inl (RequestException msg) | Inr r \<Rightarrow> Inr r),
      w\<lparr>trace := trace w @ [HttpGet req]\<rparr>)"

definition response_json :: "response \<Rightarrow> error + json" where
  "response_json r = (case json_body r of None \<Rightarrow> Inl JSONDecodeError | Some j \<Rightarrow> Inr j)"

section \<open>TiingoClient\<close>

text \<open>Lines 54 to 60. A \<^verbatim>\<open>NamedTuple\<close> does not check its fields either: the four text fields
  hold whatever the document holds.\<close>

record TickerInfo =
  ticker :: json
  name :: json
  exchangeCode :: json
  description :: json
  startDate :: date
  endDate :: date

record TiingoClient =
  headers :: "(string \<times> string) list"

text \<open>Lines 63 and 64.\<close>

definition TiingoClient_init :: "string \<Rightarrow> TiingoClient" where
  "TiingoClient_init api_key =
     \<lparr>headers = [(''Content-Type'', ''application/json''),
                 (''Authorization'', ''Token '' @ api_key)]\<rparr>"

text \<open>The list comprehension of line 75: the elements in order, ended by the first
  exception.\<close>

fun from_json_each :: "json list \<Rightarrow> error + TickerPrice list" where
  "from_json_each [] = Inr []"
| "from_json_each (p # ps) =
     bind (from_json p) (\<lambda>x. bind (from_json_each ps) (\<lambda>xs. Inr (x # xs)))"

definition prices_url :: "string \<Rightarrow> string" where
  "prices_url t = ''https://api.tiingo.com/tiingo/daily/'' @ t @ ''/prices''"

definition prices_request :: "TiingoClient \<Rightarrow> string \<Rightarrow> date \<Rightarrow> date \<Rightarrow> request" where
  "prices_request self t start_date end_date =
     \<lparr>req_url = prices_url t,
      req_params = [(''startDate'', isoformat start_date), (''endDate'', isoformat end_date),
                    (''resampleFreq'', ''daily'')],
      req_headers = headers self\<rparr>"

text \<open>Lines 66 to 75. The status code of the response is never read.\<close>

definition get_ticker_prices ::
  "TiingoClient \<Rightarrow> string \<Rightarrow> date \<Rightarrow> date \<Rightarrow> 'b world \<Rightarrow> (error + TickerPrice list) \<times> 'b world" where
  "get_ticker_prices self t start_date end_date w =
     (let w1 = logger_info (''Getting ticker prices for '' @ t @ '' from '' @
                  isoformat start_date @ '' to '' @ isoformat end_date) w;
          (res, w2) = requests_get (prices_request self t start_date end_date) w1
      in (bind res (\<lambda>response.
          bind (response_json response) (\<lambda>j.
          bind (iterate j) from_json_each)), w2))"

definition info_url :: "string \<Rightarrow> string" where
  "info_url t = ''https://api.tiingo.com/tiingo/daily/'' @ t"

definition info_request :: "TiingoClient \<Rightarrow> string \<Rightarrow> request" where
  "info_request self t = \<lparr>req_url = info_url t, req_params = [], req_headers = headers self\<rparr>"

text \<open>\<^verbatim>\<open>response.json()[k]\<close>.\<close>

definition json_field :: "response \<Rightarrow> string \<Rightarrow> error + json" where
  "json_field r k = bind (response_json r) (\<lambda>j. subscript j k)"

text \<open>Lines 84 to 91.\<close>

definition TickerInfo_of :: "response \<Rightarrow> error + TickerInfo" where
  "TickerInfo_of r =
     bind (json_field r ''ticker'') (\<lambda>v_ticker.
     bind (json_field r ''name'') (\<lambda>v_name.
     bind (json_field r ''exchangeCode'') (\<lambda>v_exchange.
     bind (json_field r ''description'') (\<lambda>v_description.
     bind (json_field r ''startDate'') (\<lambda>v_start.
     bind (date_fromisoformat v_start) (\<lambda>d_start.
     bind (json_field r ''endDate'') (\<lambda>v_end.
     bind (date_fromisoformat v_end) (\<lambda>d_end.
     Inr \<lparr>ticker = v_ticker, name = v_name, exchangeCode = v_exchange,
          description = v_description, startDate = d_start, endDate = d_end\<rparr>))))))))"

text \<open>Lines 77 to 91.\<close>

definition get_ticker_info ::
  "TiingoClient \<Rightarrow> string \<Rightarrow> 'b world \<Rightarrow> (error + TickerInfo) \<times> 'b world" where
  "get_ticker_info self t w =
     (let w1 = logger_info (''Getting ticker info for '' @ t) w;
          (res, w2) = requests_get (info_request self t) w1
      in (case res of
            Inl e \<Rightarrow> (Inl e, w2)
          | Inr response \<Rightarrow>
              if status_code response \<noteq> 200 then
                (Inl ErrorTickerNotFound,
                 logger_error (''Failed to get ticker info for '' @ t @ '': '' @
                    str_int (status_code response) @ '' '' @ text_body response) w2)
              else (TickerInfo_of response, w2)))"

section \<open>Tables and the parquet engine\<close>

text \<open>
  Library model of the table \<^verbatim>\<open>pd.DataFrame(prices)\<close> builds from a list of dataclass
  instances: one column per field, in the order of the fields, one row per instance; from
  the empty list, a table with no row and no column. The cells keep the Python values;
  the column types pandas infers are not modelled.
\<close>

record dataframe =
  columns :: "string list"
  rows :: "TickerPrice list"

definition field_names :: "string list" where
  "field_names = [''date'', ''open'', ''high'', ''low'', ''close'', ''volume'', ''adjusted_open'',
     ''adjusted_high'', ''adjusted_low'', ''adjusted_close'', ''adjusted_volume'',
     ''dividend_cash'', ''split_factor'']"

definition DataFrame :: "TickerPrice list \<Rightarrow> dataframe" where
  "DataFrame prices =
     (if prices = [] then \<lparr>columns = [], rows = []\<rparr>
      else \<lparr>columns = field_names, rows = prices\<rparr>)"

text \<open>\<^verbatim>\<open>df['date']\<close>: the column, or \<^verbatim>\<open>KeyError\<close> when the table has no such column.\<close>

definition date_column :: "dataframe \<Rightarrow> error + date list" where
  "date_column df =
     (if ''date'' \<in> set (columns df) then Inr (map date (rows df)) else Inl (KeyError ''date''))"

text \<open>\<^verbatim>\<open>.min()\<close> and \<^verbatim>\<open>.max()\<close> of a column of dates; of an empty column they are \<^verbatim>\<open>NaN\<close>,
  here \<open>None\<close>, which equals no date.\<close>

fun series_min :: "date list \<Rightarrow> date option" where
  "series_min [] = None"
| "series_min (d # ds) = Some (fold date_min ds d)"

fun series_max :: "date list \<Rightarrow> date option" where
  "series_max [] = None"
| "series_max (d # ds) = Some (fold date_max ds d)"

text \<open>
  The parquet engine (\<^verbatim>\<open>engine='pyarrow'\<close>) is a parameter: it turns a table into the
  content of a file, or fails, and turns the content of a file into a table, or fails.
  Nothing is assumed about it but that it is a function.
\<close>

record 'b engine =
  to_parquet :: "dataframe \<Rightarrow> error + 'b"
  read_parquet :: "'b \<Rightarrow> error + dataframe"

text \<open>\<^verbatim>\<open>os.path.exists(p)\<close>.\<close>

definition path_exists :: "'b world \<Rightarrow> path \<Rightarrow> bool" where
  "path_exists w p \<longleftrightarrow> fs w p \<noteq> None"

text \<open>\<^verbatim>\<open>pd.read_parquet(p, engine='pyarrow')\<close>. Datasets spread over a directory are not
  modelled: reading a directory fails.\<close>

definition pd_read_parquet :: "'b engine \<Rightarrow> path \<Rightarrow> 'b world \<Rightarrow> error + dataframe" where
  "pd_read_parquet eng p w =
     (case fs w p of
        None \<Rightarrow> Inl (OSError ''No such file or directory'')
      | Some Dir \<Rightarrow> Inl (OSError ''Is a directory'')
      | Some (File b) \<Rightarrow> read_parquet eng b)"

text \<open>\<^verbatim>\<open>df.to_parquet(p, engine='pyarrow')\<close>: the table is converted first; the file is then
  created or replaced as a whole, inside a directory that must exist.\<close>

definition df_to_parquet ::
  "'b engine \<Rightarrow> dataframe \<Rightarrow> path \<Rightarrow> 'b world \<Rightarrow> (error + unit) \<times> 'b world" where
  "df_to_parquet eng df p w =
     (case to_parquet eng df of
        Inl e \<Rightarrow> (Inl e, w)
      | Inr b \<Rightarrow>
          if fs w (butlast p) \<noteq> Some Dir then (Inl (OSError ''No such file or directory''), w)
          else if fs w p = Some Dir then (Inl (OSError ''Is a directory''), w)
          else (Inr (), w\<lparr>fs := (fs w)(p \<mapsto> File b), trace := trace w @ [WriteFile p]\<rparr>))"

section \<open>TickerPriceStorage\<close>

record TickerPriceStorage =
  tiingo :: TiingoClient
  path :: path

text \<open>Lines 94 to 97. The directory is named by one string; \<^verbatim>\<open>mkdir(parents=True,
  exist_ok=True)\<close> leaves an existing directory alone and fails on a file of that name.\<close>

definition TickerPriceStorage_init ::
  "TiingoClient \<Rightarrow> string \<Rightarrow> 'b world \<Rightarrow> (error + TickerPriceStorage) \<times> 'b world" where
  "TickerPriceStorage_init client p w =
     (case fs w [p] of
        Some (File b) \<Rightarrow> (Inl (OSError ''File exists''), w)
      | _ \<Rightarrow> (Inr \<lparr>tiingo = client, path = [p]\<rparr>, w\<lparr>fs := (fs w)([p] \<mapsto> Dir)\<rparr>))"

text \<open>Line 101: \<^verbatim>\<open>self.path / f'{ticker}.parquet'\<close>.\<close>

definition cache_file :: "TickerPriceStorage \<Rightarrow> string \<Rightarrow> path" where
  "cache_file self t = path self @ [t @ ''.parquet'']"

text \<open>Lines 106 to 109 of \<^verbatim>\<open>read\<close>: fetch, write, load again.\<close>

definition read_fetch ::
  "'b engine \<Rightarrow> TickerPriceStorage \<Rightarrow> string \<Rightarrow> TickerInfo \<Rightarrow> path \<Rightarrow> 'b world
     \<Rightarrow> (error + dataframe) \<times> 'b world" where
  "read_fetch eng self t ticker_info filepath w =
     (case get_ticker_prices (tiingo self) t (startDate ticker_info) (endDate ticker_info) w of
        (Inl e, w1) \<Rightarrow> (Inl e, w1)
      | (Inr prices, w1) \<Rightarrow>
          (case df_to_parquet eng (DataFrame prices) filepath w1 of
             (Inl e, w2) \<Rightarrow> (Inl e, w2)
           | (Inr u, w2) \<Rightarrow> (pd_read_parquet eng filepath w2, w2)))"

text \<open>Lines 99 to 109.\<close>

definition read ::
  "'b engine \<Rightarrow> TickerPriceStorage \<Rightarrow> string \<Rightarrow> 'b world \<Rightarrow> (error + dataframe) \<times> 'b world" where
  "read eng self t w =
     (case get_ticker_info (tiingo self) t w of
        (Inl e, w1) \<Rightarrow> (Inl e, w1)
      | (Inr ticker_info, w1) \<Rightarrow>
          (let filepath = cache_file self t in
           if path_exists w1 filepath then
             (case pd_read_parquet eng filepath w1 of
                Inl e \<Rightarrow> (Inl e, w1)
              | Inr df \<Rightarrow>
                  (case date_column df of
                     Inl e \<Rightarrow> (Inl e, w1)
                   | Inr ds \<Rightarrow>
                       if series_min ds = Some (startDate ticker_info) \<and>
                          series_max ds = Some (endDate ticker_info)
                       then (Inr df, w1)
                       else read_fetch eng self t ticker_info filepath w1))
           else read_fetch eng self t ticker_info filepath w1))"

section \<open>Conditions and scenarios\<close>

text \<open>The cache lookup of lines 102 to 105 falls through to line 106: there is nothing at the
  path, or the file loads and its date bounds differ from the metadata's.\<close>

definition falls_through :: "'b engine \<Rightarrow> 'b world \<Rightarrow> path \<Rightarrow> TickerInfo \<Rightarrow> bool" where
  "falls_through eng w p i \<longleftrightarrow>
     \<not> path_exists w p \<or>
     (\<exists>b df ds. fs w p = Some (File b) \<and> read_parquet eng b = Inr df \<and> date_column df = Inr ds \<and>
        \<not> (series_min ds = Some (startDate i) \<and> series_max ds = Some (endDate i)))"

text \<open>An engine whose file content is the table itself, so that a table written is the table
  loaded (the round trip of section 8 of the spec). It instantiates the engine wherever a
  statement is evaluated on concrete data.\<close>

definition plain_engine :: "dataframe engine" where
  "plain_engine = \<lparr>to_parquet = Inr, read_parquet = Inr\<rparr>"

text \<open>The scenario of section 8 of the spec: the ticker \<^verbatim>\<open>QQQ\<close>, a provider that answers the
  metadata request and the price request with given documents, and the storage directory
  \<^verbatim>\<open>.prices\<close>. The text of a body only matters to the log line of line 82.\<close>

definition qqq_client :: TiingoClient where
  "qqq_client = TiingoClient_init ''secret''"

definition qqq_info_body :: "string \<Rightarrow> string \<Rightarrow> json" where
  "qqq_info_body start_s end_s =
     JObj [(''ticker'', JStr ''QQQ''), (''name'', JStr ''Invesco QQQ Trust''),
           (''exchangeCode'', JStr ''NASDAQ''), (''description'', JNull),
           (''startDate'', JStr start_s), (''endDate'', JStr end_s)]"

definition qqq_info :: "date \<Rightarrow> date \<Rightarrow> TickerInfo" where
  "qqq_info s e = \<lparr>ticker = JStr ''QQQ'', name = JStr ''Invesco QQQ Trust'',
     exchangeCode = JStr ''NASDAQ'', description = JNull, startDate = s, endDate = e\<rparr>"

definition qqq_row :: "string \<Rightarrow> json" where
  "qqq_row date_s =
     JObj [(''date'', JStr date_s), (''open'', JFloat 100.0), (''high'', JFloat 101.5),
           (''low'', JFloat 99.0), (''close'', JFloat 100.5), (''volume'', JInt 1000),
           (''adjOpen'', JFloat 100.0), (''adjHigh'', JFloat 101.5), (''adjLow'', JFloat 99.0),
           (''adjClose'', JFloat 100.5), (''adjVolume'', JInt 1000), (''divCash'', JFloat 0.0),
           (''splitFactor'', JFloat 1.0)]"

definition qqq_price :: "date \<Rightarrow> TickerPrice" where
  "qqq_price d =
     \<lparr>date = d, open = JFloat 100.0, high = JFloat 101.5, low = JFloat 99.0,
      close = JFloat 100.5, volume = JInt 1000, adjusted_open = JFloat 100.0,
      adjusted_high = JFloat 101.5, adjusted_low = JFloat 99.0, adjusted_close = JFloat 100.5,
      adjusted_volume = JInt 1000, dividend_cash = JFloat 0.0, split_factor = JFloat 1.0\<rparr>"

definition qqq_provider :: "json \<Rightarrow> json \<Rightarrow> request \<Rightarrow> string + response" where
  "qqq_provider info_body prices_body req =
     (if req_url req = info_url ''QQQ'' then
        Inr \<lparr>status_code = 200, text_body = ''(metadata)'', json_body = Some info_body\<rparr>
      else if req_url req = prices_url ''QQQ'' then
        Inr \<lparr>status_code = 200, text_body = ''(prices)'', json_body = Some prices_body\<rparr>
      else Inr \<lparr>status_code = 404, text_body = ''Not found'',
                json_body = Some (JObj [(''detail'', JStr ''Not found.'')])\<rparr>)"

definition qqq_world ::
  "json \<Rightarrow> json \<Rightarrow> (path \<Rightarrow> dataframe node option) \<Rightarrow> dataframe world" where
  "qqq_world info_body prices_body files =
     \<lparr>provider = qqq_provider info_body prices_body, fs = files, trace = []\<rparr>"

definition qqq_storage :: TickerPriceStorage where
  "qqq_storage = \<lparr>tiingo = qqq_client, path = [''.prices'']\<rparr>"

definition qqq_table :: dataframe where
  "qqq_table = DataFrame [qqq_price (Date 2020 1 2), qqq_price (Date 2020 1 3)]"

definition qqq_prices_body :: json where
  "qqq_prices_body = JArr [qqq_row ''2020-01-02'', qqq_row ''2020-01-03'']"

definition qqq_file :: path where
  "qqq_file = [''.prices'', ''QQQ.parquet'']"

definition qqq_cached :: "path \<Rightarrow> dataframe node option" where
  "qqq_cached = [[''.prices''] \<mapsto> Dir, qqq_file \<mapsto> File qqq_table]"

definition qqq_error_body :: json where
  "qqq_error_body = JObj [(''detail'', JStr ''Not found.'')]"

definition qqq_dir_only :: "path \<Rightarrow> dataframe node option" where
  "qqq_dir_only = [[''.prices''] \<mapsto> Dir]"


text \<open>The world the first read of the scenario leaves, with metadata bounds 2020-01-01 and
  2020-01-03 and the two rows of 2020-01-02 and 2020-01-03 in the cache.\<close>

definition qqq_after_first :: "dataframe world" where
  "qqq_after_first =
     \<lparr>provider = qqq_provider (qqq_info_body ''2020-01-01'' ''2020-01-03'') qqq_prices_body,
      fs = qqq_cached,
      trace = [Log INFO ''Getting ticker info for QQQ'',
               HttpGet (info_request qqq_client ''QQQ''),
               Log INFO ''Getting ticker prices for QQQ from 2020-01-01 to 2020-01-03'',
               HttpGet (prices_request qqq_client ''QQQ'' (Date 2020 1 1) (Date 2020 1 3)),
               WriteFile qqq_file]\<rparr>"

section \<open>Sequencing and the readers\<close>

lemma bind_Inr [simp]: "bind (Inr x) f = f x"
  by (simp add: bind_def)

lemma bind_Inl [simp]: "bind (Inl e) f = Inl e"
  by (simp add: bind_def)

lemma bind_eq_Inl: "bind m f = Inl e \<longleftrightarrow> m = Inl e \<or> (\<exists>x. m = Inr x \<and> f x = Inl e)"
  by (cases m) simp_all

lemma bind_eq_Inr: "bind m f = Inr y \<longleftrightarrow> (\<exists>x. m = Inr x \<and> f x = Inr y)"
  by (cases m) simp_all

lemma subscript_error: "subscript j k = Inl e \<Longrightarrow> e = KeyError k \<or> e = TypeError"
  by (cases j) (auto split: option.splits)

lemma iso_date_error: "iso_date s = Inl e \<Longrightarrow> e = ValueError"
  by (auto simp: iso_date_def make_date_def split: if_splits option.splits)

lemma datetime_error: "datetime_fromisoformat_date j = Inl e \<Longrightarrow> e = ValueError \<or> e = TypeError"
  by (cases j) (auto dest: iso_date_error split: if_splits)

lemma date_fromisoformat_error: "date_fromisoformat j = Inl e \<Longrightarrow> e = ValueError \<or> e = TypeError"
  by (cases j) (auto dest: iso_date_error split: if_splits)

lemma from_json_error:
  assumes "from_json j = Inl e"
  shows "(\<exists>k. e = KeyError k) \<or> e = TypeError \<or> e = ValueError"
  using assms unfolding from_json_def bind_eq_Inl
  by (auto dest!: subscript_error datetime_error)

lemma from_json_each_error:
  "from_json_each js = Inl e \<Longrightarrow> (\<exists>k. e = KeyError k) \<or> e = TypeError \<or> e = ValueError"
proof (induction js)
  case Nil
  then show ?case by simp
next
  case (Cons j js)
  then show ?case
    by (auto simp: bind_eq_Inl dest: from_json_error)
qed

lemma from_json_each_Inr:
  "from_json_each js = Inr ps \<longleftrightarrow> list_all2 (\<lambda>j p. from_json j = Inr p) js ps"
proof (induction js arbitrary: ps)
  case Nil
  then show ?case by auto
next
  case (Cons j js)
  show ?case
    by (cases ps) (auto simp: bind_eq_Inr Cons.IH)
qed

lemma iterate_error: "iterate j = Inl e \<Longrightarrow> e = TypeError"
  by (cases j) auto

lemma get_ticker_prices_eq:
  "get_ticker_prices c t s e w =
     (bind (case provider w (prices_request c t s e) of Inl m \<Rightarrow> Inl (RequestException m) | Inr r \<Rightarrow> Inr r)
        (\<lambda>response. bind (response_json response) (\<lambda>j. bind (iterate j) from_json_each)),
      w\<lparr>trace := trace w @
         [Log INFO (''Getting ticker prices for '' @ t @ '' from '' @ isoformat s @ '' to '' @ isoformat e),
          HttpGet (prices_request c t s e)]\<rparr>)"
  by (simp add: get_ticker_prices_def requests_get_def logger_info_def Let_def)

lemma get_ticker_info_eq:
  "get_ticker_info c t w =
     (case provider w (info_request c t) of
        Inl m \<Rightarrow> (Inl (RequestException m),
                  w\<lparr>trace := trace w @ [Log INFO (''Getting ticker info for '' @ t), HttpGet (info_request c t)]\<rparr>)
      | Inr r \<Rightarrow>
          if status_code r \<noteq> 200 then
            (Inl ErrorTickerNotFound,
             w\<lparr>trace := trace w @ [Log INFO (''Getting ticker info for '' @ t), HttpGet (info_request c t),
                Log ERROR (''Failed to get ticker info for '' @ t @ '': '' @ str_int (status_code r) @ '' '' @ text_body r)]\<rparr>)
          else (TickerInfo_of r,
                w\<lparr>trace := trace w @ [Log INFO (''Getting ticker info for '' @ t), HttpGet (info_request c t)]\<rparr>))"
  by (simp add: get_ticker_info_def requests_get_def logger_info_def logger_error_def Let_def
      split: sum.splits)

section \<open>Writing a date and reading it back\<close>












section \<open>The calls and the world\<close>

lemma get_ticker_info_fs: "fs (snd (get_ticker_info c t w)) = fs w"
  by (simp add: get_ticker_info_eq split: sum.splits)

lemma get_ticker_info_provider: "provider (snd (get_ticker_info c t w)) = provider w"
  by (simp add: get_ticker_info_eq split: sum.splits)

lemma get_ticker_info_cong:
  "provider w' = provider w \<Longrightarrow> fst (get_ticker_info c t w') = fst (get_ticker_info c t w)"
  by (simp add: get_ticker_info_eq split: sum.splits)

lemma get_ticker_info_Inr:
  assumes "get_ticker_info c t w = (Inr i, w1)"
  shows "w1 = w\<lparr>trace := trace w @ [Log INFO (''Getting ticker info for '' @ t), HttpGet (info_request c t)]\<rparr>"
  using assms by (auto simp: get_ticker_info_eq split: sum.splits if_splits)

lemma get_ticker_prices_fs: "fs (snd (get_ticker_prices c t s e w)) = fs w"
  by (simp add: get_ticker_prices_eq)

lemma get_ticker_prices_provider: "provider (snd (get_ticker_prices c t s e w)) = provider w"
  by (simp add: get_ticker_prices_eq)

lemma get_ticker_prices_cong:
  "provider w' = provider w \<Longrightarrow> fst (get_ticker_prices c t s e w') = fst (get_ticker_prices c t s e w)"
  by (simp add: get_ticker_prices_eq)


lemma butlast_cache_file: "butlast (cache_file self t) = path self"
  by (simp add: cache_file_def butlast_append)

lemma cache_file_neq_path: "cache_file self t \<noteq> path self"
  by (simp add: cache_file_def)

lemma read_hit_eq:
  assumes "get_ticker_info (tiingo self) t w = (Inr i, w1)"
    and "fs w (cache_file self t) = Some (File b)"
    and "read_parquet eng b = Inr df"
    and "date_column df = Inr ds"
    and "series_min ds = Some (startDate i)"
    and "series_max ds = Some (endDate i)"
  shows "read eng self t w = (Inr df, w1)"
proof -
  have "fs w1 = fs w"
    using get_ticker_info_fs [of "tiingo self" t w] assms(1) by simp
  then show ?thesis
    using assms by (simp add: read_def path_exists_def pd_read_parquet_def)
qed

lemma read_miss_eq:
  assumes "get_ticker_info (tiingo self) t w = (Inr i, w1)"
    and "falls_through eng w (cache_file self t) i"
  shows "read eng self t w = read_fetch eng self t i (cache_file self t) w1"
proof -
  have "fs w1 = fs w"
    using get_ticker_info_fs [of "tiingo self" t w] assms(1) by simp
  then show ?thesis
    using assms by (auto simp: read_def falls_through_def path_exists_def pd_read_parquet_def)
qed

lemma read_info_fail:
  assumes "get_ticker_info (tiingo self) t w = (Inl e, w1)"
  shows "read eng self t w = (Inl e, w1)"
  using assms by (simp add: read_def)

lemma read_fetch_fail:
  assumes "get_ticker_prices (tiingo self) t (startDate i) (endDate i) w = (Inl e, w1)"
  shows "read_fetch eng self t i p w = (Inl e, w1)"
  using assms by (simp add: read_fetch_def)

lemma read_fetch_ok:
  assumes "get_ticker_prices (tiingo self) t (startDate i) (endDate i) w = (Inr prices, w1)"
    and "to_parquet eng (DataFrame prices) = Inr b"
    and "fs w (butlast p) = Some Dir"
    and "fs w p \<noteq> Some Dir"
  shows "read_fetch eng self t i p w =
     (read_parquet eng b, w1\<lparr>fs := (fs w)(p \<mapsto> File b), trace := trace w1 @ [WriteFile p]\<rparr>)"
proof -
  have "fs w1 = fs w"
    using get_ticker_prices_fs [of "tiingo self" t "startDate i" "endDate i" w] assms(1) by simp
  then show ?thesis
    using assms by (simp add: read_fetch_def df_to_parquet_def pd_read_parquet_def)
qed

text \<open>A successful fetch, read backwards.\<close>

lemma read_fetch_Inr:
  assumes "read_fetch eng self t i p w = (Inr df, w')"
  obtains prices w1 b where
    "get_ticker_prices (tiingo self) t (startDate i) (endDate i) w = (Inr prices, w1)"
    "to_parquet eng (DataFrame prices) = Inr b"
    "fs w (butlast p) = Some Dir" "fs w p \<noteq> Some Dir"
    "read_parquet eng b = Inr df"
    "w' = w1\<lparr>fs := (fs w)(p \<mapsto> File b), trace := trace w1 @ [WriteFile p]\<rparr>"
proof -
  obtain r w1 where g: "get_ticker_prices (tiingo self) t (startDate i) (endDate i) w = (r, w1)"
    by (cases "get_ticker_prices (tiingo self) t (startDate i) (endDate i) w")
  have f: "fs w1 = fs w"
    using get_ticker_prices_fs [of "tiingo self" t "startDate i" "endDate i" w] g by simp
  from assms g obtain prices where r: "r = Inr prices"
    by (cases r) (auto simp: read_fetch_def)
  from assms g r obtain b where b: "to_parquet eng (DataFrame prices) = Inr b"
    by (cases "to_parquet eng (DataFrame prices)") (auto simp: read_fetch_def df_to_parquet_def)
  from assms g r b f have d: "fs w (butlast p) = Some Dir" "fs w p \<noteq> Some Dir"
    by (auto simp: read_fetch_def df_to_parquet_def split: if_splits)
  from assms g r b f d
  have "read_parquet eng b = Inr df"
    "w' = w1\<lparr>fs := (fs w)(p \<mapsto> File b), trace := trace w1 @ [WriteFile p]\<rparr>"
    by (auto simp: read_fetch_def df_to_parquet_def pd_read_parquet_def)
  with g r b d show thesis
    using that by blast
qed

text \<open>A successful read, read backwards: a hit or a fetch.\<close>

lemma read_Inr:
  assumes "read eng self t w = (Inr df, w')"
  obtains (hit) i b ds where
      "get_ticker_info (tiingo self) t w = (Inr i, w')"
      "fs w (cache_file self t) = Some (File b)" "read_parquet eng b = Inr df"
      "date_column df = Inr ds"
      "series_min ds = Some (startDate i)" "series_max ds = Some (endDate i)"
  | (fetch) i w1 where
      "get_ticker_info (tiingo self) t w = (Inr i, w1)"
      "falls_through eng w (cache_file self t) i"
      "read_fetch eng self t i (cache_file self t) w1 = (Inr df, w')"
proof -
  obtain r w1 where g: "get_ticker_info (tiingo self) t w = (r, w1)"
    by (cases "get_ticker_info (tiingo self) t w")
  have f: "fs w1 = fs w"
    using get_ticker_info_fs [of "tiingo self" t w] g by simp
  from assms g obtain i where r: "r = Inr i"
    by (cases r) (auto simp: read_def)
  show thesis
  proof (cases "falls_through eng w (cache_file self t) i")
    case True
    then show ?thesis
      using fetch [of i w1] read_miss_eq [of self t w i w1 eng] g r assms by simp
  next
    case False
    then obtain b where b: "fs w (cache_file self t) = Some (File b)"
      using assms g r f
      by (auto simp: falls_through_def read_def path_exists_def pd_read_parquet_def
          split: option.splits node.splits)
    from False b assms g r f obtain df' where l: "read_parquet eng b = Inr df'"
      by (cases "read_parquet eng b") (auto simp: read_def path_exists_def pd_read_parquet_def)
    from False b l assms g r f obtain ds where c: "date_column df' = Inr ds"
      by (cases "date_column df'") (auto simp: read_def path_exists_def pd_read_parquet_def)
    from False b l c have m: "series_min ds = Some (startDate i)" "series_max ds = Some (endDate i)"
      by (auto simp: falls_through_def)
    have "read eng self t w = (Inr df', w1)"
      using read_hit_eq [OF _ b l c m] g r by simp
    with assms have "df' = df" "w1 = w'" by simp_all
    then show ?thesis
      using hit [of i b ds] g r b l c m by simp
  qed
qed

section \<open>The scenario, evaluated\<close>

lemma iso_2020_01_01: "iso_date ''2020-01-01'' = Inr (Date 2020 1 1)"
  by (simp add: iso_date_def number_def digit_val_def make_date_def days_in_month_def)
lemma iso_2020_01_02: "iso_date ''2020-01-02'' = Inr (Date 2020 1 2)"
  by (simp add: iso_date_def number_def digit_val_def make_date_def days_in_month_def)
lemma iso_2020_01_03: "iso_date ''2020-01-03'' = Inr (Date 2020 1 3)"
  by (simp add: iso_date_def number_def digit_val_def make_date_def days_in_month_def)

lemma qqq_row_price:
  assumes "iso_date s = Inr d"
  shows "from_json (qqq_row s) = Inr (qqq_price d)"
proof -
  have "length s = 10"
    using assms by (auto simp: iso_date_def split: if_splits)
  then show ?thesis
    using assms by (simp add: from_json_def qqq_row_def qqq_price_def)
qed

lemma qqq_TickerInfo_of:
  assumes "iso_date s = Inr d" and "iso_date s' = Inr d'"
  shows "TickerInfo_of \<lparr>status_code = c, text_body = tx, json_body = Some (qqq_info_body s s')\<rparr>
     = Inr (qqq_info d d')"
  using assms
  by (simp add: TickerInfo_of_def json_field_def response_json_def qqq_info_body_def qqq_info_def)

lemma info_url_neq_prices_url: "info_url t \<noteq> prices_url t"
  by (simp add: info_url_def prices_url_def)

lemma qqq_get_ticker_info:
  assumes "provider w = qqq_provider (qqq_info_body s s') pb"
    and "iso_date s = Inr d" and "iso_date s' = Inr d'"
  shows "get_ticker_info qqq_client ''QQQ'' w =
    (Inr (qqq_info d d'),
     w\<lparr>trace := trace w @ [Log INFO ''Getting ticker info for QQQ'',
          HttpGet (info_request qqq_client ''QQQ'')]\<rparr>)"
  using assms(1) qqq_TickerInfo_of [OF assms(2,3)]
  by (simp add: get_ticker_info_eq qqq_provider_def info_request_def)

lemma qqq_get_ticker_prices:
  assumes "provider w = qqq_provider ib (JArr [qqq_row s, qqq_row s'])"
    and "iso_date s = Inr d" and "iso_date s' = Inr d'"
  shows "fst (get_ticker_prices qqq_client ''QQQ'' a b w) = Inr [qqq_price d, qqq_price d']"
  using assms(1) qqq_row_price [OF assms(2)] qqq_row_price [OF assms(3)] info_url_neq_prices_url [of "''QQQ''"]
  by (simp add: get_ticker_prices_eq qqq_provider_def prices_request_def response_json_def
      del: One_nat_def)

lemma qqq_cache_file: "cache_file qqq_storage ''QQQ'' = qqq_file"
  by (simp add: cache_file_def qqq_storage_def qqq_file_def)

lemma qqq_table_dates:
  "date_column qqq_table = Inr [Date 2020 1 2, Date 2020 1 3]"
  by (simp add: qqq_table_def DataFrame_def date_column_def field_names_def qqq_price_def)

lemma qqq_dates_min: "series_min [Date 2020 1 2, Date 2020 1 3] = Some (Date 2020 1 2)"
  by (simp add: date_min_def date_less_def)

lemma qqq_dates_max: "series_max [Date 2020 1 2, Date 2020 1 3] = Some (Date 2020 1 3)"
  by (simp add: date_max_def date_less_def)

lemma qqq_prices_call:
  assumes "provider w = qqq_provider ib pb"
  shows "get_ticker_prices qqq_client ''QQQ'' s e w =
    (bind (iterate pb) from_json_each,
     w\<lparr>trace := trace w @
        [Log INFO (''Getting ticker prices for QQQ from '' @ isoformat s @ '' to '' @ isoformat e),
         HttpGet (prices_request qqq_client ''QQQ'' s e)]\<rparr>)"
  using assms info_url_neq_prices_url [of "''QQQ''"]
  by (simp add: get_ticker_prices_eq qqq_provider_def prices_request_def response_json_def)

lemma qqq_rows_prices:
  "bind (iterate qqq_prices_body) from_json_each =
     Inr [qqq_price (Date 2020 1 2), qqq_price (Date 2020 1 3)]"
  using qqq_row_price [OF iso_2020_01_02] qqq_row_price [OF iso_2020_01_03]
  by (simp add: qqq_prices_body_def)

lemma read_fetch_fs:
  assumes "fs (snd (read_fetch eng self t i p w)) \<noteq> fs w"
  shows "\<exists>prices w2. get_ticker_prices (tiingo self) t (startDate i) (endDate i) w = (Inr prices, w2)"
proof -
  obtain res w2 where g: "get_ticker_prices (tiingo self) t (startDate i) (endDate i) w = (res, w2)"
    by (cases "get_ticker_prices (tiingo self) t (startDate i) (endDate i) w")
  have f: "fs w2 = fs w"
    using get_ticker_prices_fs [of "tiingo self" t "startDate i" "endDate i" w] g by simp
  show ?thesis
  proof (cases res)
    case (Inl e)
    then show ?thesis
      using assms g f by (simp add: read_fetch_def)
  next
    case (Inr prices)
    then show ?thesis
      using g by simp
  qed
qed

lemma read_fs:
  assumes "fs (snd (read eng self t w)) \<noteq> fs w"
  shows "\<exists>i w1 prices w2. get_ticker_info (tiingo self) t w = (Inr i, w1) \<and>
     get_ticker_prices (tiingo self) t (startDate i) (endDate i) w1 = (Inr prices, w2)"
proof -
  obtain r w1 where g: "get_ticker_info (tiingo self) t w = (r, w1)"
    by (cases "get_ticker_info (tiingo self) t w")
  have f: "fs w1 = fs w"
    using get_ticker_info_fs [of "tiingo self" t w] g by simp
  from assms g f obtain i where r: "r = Inr i"
    by (cases r) (auto simp: read_def)
  have "fs (snd (read_fetch eng self t i (cache_file self t) w1)) \<noteq> fs w1"
    using assms g r f
    by (auto simp: read_def Let_def split: if_splits sum.splits)
  from read_fetch_fs [OF this] show ?thesis
    using g r by blast
qed

lemma qqq_error_prices: "bind (iterate qqq_error_body) from_json_each = Inl TypeError"
  by (simp add: qqq_error_body_def from_json_def)

lemma qqq_unknown_ticker:
  assumes "provider w = qqq_provider ib pb"
  shows "get_ticker_info qqq_client ''ZZZ'' w =
    (Inl ErrorTickerNotFound,
     w\<lparr>trace := trace w @ [Log INFO ''Getting ticker info for ZZZ'',
          HttpGet (info_request qqq_client ''ZZZ''),
          Log ERROR ''Failed to get ticker info for ZZZ: 404 Not found'']\<rparr>)"
  using assms
  by (simp add: get_ticker_info_eq qqq_provider_def info_request_def info_url_def prices_url_def
      str_int_def digit_char_def)


lemma from_json_each_Inl:
  "from_json_each js = Inl e \<Longrightarrow> \<exists>j \<in> set js. from_json j = Inl e"
proof (induction js)
  case Nil
  then show ?case by simp
next
  case (Cons j js)
  then show ?case
    by (auto simp: bind_eq_Inl)
qed

lemma parse_prices_error:
  assumes "bind (response_json r) (\<lambda>j. bind (iterate j) from_json_each) = Inl e"
  shows "e = JSONDecodeError \<or> (\<exists>k. e = KeyError k) \<or> e = TypeError \<or> e = ValueError"
  using assms
  by (auto simp: bind_eq_Inl response_json_def split: option.splits
      dest: iterate_error from_json_each_error)


lemma qqq_provider_info:
  "qqq_provider ib pb (info_request qqq_client ''QQQ'') =
     Inr \<lparr>status_code = 200, text_body = ''(metadata)'', json_body = Some ib\<rparr>"
  by (simp add: qqq_provider_def info_request_def)

lemma qqq_provider_prices:
  "qqq_provider ib pb (prices_request qqq_client ''QQQ'' s e) =
     Inr \<lparr>status_code = 200, text_body = ''(prices)'', json_body = Some pb\<rparr>"
  using info_url_neq_prices_url [of "''QQQ''"]
  by (simp add: qqq_provider_def prices_request_def)

lemma qqq_provider_prices_unknown:
  "qqq_provider ib pb (prices_request qqq_client ''ZZZ'' s e) =
     Inr \<lparr>status_code = 404, text_body = ''Not found'', json_body = Some qqq_error_body\<rparr>"
  by (simp add: qqq_provider_def prices_request_def info_url_def prices_url_def qqq_error_body_def)



lemma get_ticker_info_again:
  assumes "get_ticker_info c t w = (Inr i, w1)" and "provider w' = provider w"
  shows "get_ticker_info c t w' =
    (Inr i, w'\<lparr>trace := trace w' @
       [Log INFO (''Getting ticker info for '' @ t), HttpGet (info_request c t)]\<rparr>)"
proof -
  have "fst (get_ticker_info c t w') = Inr i"
    using get_ticker_info_cong [OF assms(2), of c t] assms(1) by simp
  then obtain w2 where g: "get_ticker_info c t w' = (Inr i, w2)"
    by (cases "get_ticker_info c t w'") simp
  then show ?thesis
    using get_ticker_info_Inr [OF g] by simp
qed

lemma get_ticker_prices_again:
  assumes "get_ticker_prices c t s e w = (res, w1)" and "provider w' = provider w"
  shows "get_ticker_prices c t s e w' =
    (res, w'\<lparr>trace := trace w' @
       [Log INFO (''Getting ticker prices for '' @ t @ '' from '' @ isoformat s @ '' to '' @
           isoformat e),
        HttpGet (prices_request c t s e)]\<rparr>)"
  using assms by (simp add: get_ticker_prices_eq)

lemma qqq_refetch:
  assumes p: "provider w = qqq_provider (qqq_info_body ''2020-01-01'' ''2020-01-03'') qqq_prices_body"
    and f: "fs w = qqq_dir_only \<or> fs w = qqq_cached"
  shows "read plain_engine qqq_storage ''QQQ'' w =
    (Inr qqq_table,
     w\<lparr>fs := qqq_cached,
       trace := trace w @
         [Log INFO ''Getting ticker info for QQQ'',
          HttpGet (info_request qqq_client ''QQQ''),
          Log INFO ''Getting ticker prices for QQQ from 2020-01-01 to 2020-01-03'',
          HttpGet (prices_request qqq_client ''QQQ'' (Date 2020 1 1) (Date 2020 1 3)),
          WriteFile qqq_file]\<rparr>)"
proof -
  let ?i = "qqq_info (Date 2020 1 1) (Date 2020 1 3)"
  let ?w1 = "w\<lparr>trace := trace w @ [Log INFO ''Getting ticker info for QQQ'',
          HttpGet (info_request qqq_client ''QQQ'')]\<rparr>"
  let ?w2 = "?w1\<lparr>trace := trace ?w1 @
        [Log INFO (''Getting ticker prices for QQQ from '' @ isoformat (Date 2020 1 1) @ '' to '' @
            isoformat (Date 2020 1 3)),
         HttpGet (prices_request qqq_client ''QQQ'' (Date 2020 1 1) (Date 2020 1 3))]\<rparr>"
  have meta: "get_ticker_info (tiingo qqq_storage) ''QQQ'' w = (Inr ?i, ?w1)"
    using qqq_get_ticker_info [OF p iso_2020_01_01 iso_2020_01_03] by (simp add: qqq_storage_def)
  have stale: "\<not> (series_min [Date 2020 1 2, Date 2020 1 3] = Some (startDate ?i) \<and>
                  series_max [Date 2020 1 2, Date 2020 1 3] = Some (endDate ?i))"
    using qqq_dates_min by (simp add: qqq_info_def)
  have loaded: "read_parquet plain_engine qqq_table = Inr qqq_table"
    by (simp add: plain_engine_def)
  have ft: "falls_through plain_engine w (cache_file qqq_storage ''QQQ'') ?i"
  proof (rule disjE [OF f])
    assume "fs w = qqq_dir_only"
    then show ?thesis
      by (simp add: falls_through_def path_exists_def qqq_cache_file qqq_dir_only_def qqq_file_def)
  next
    assume "fs w = qqq_cached"
    then have "fs w (cache_file qqq_storage ''QQQ'') = Some (File qqq_table)"
      by (simp add: qqq_cache_file qqq_cached_def)
    then show ?thesis
      unfolding falls_through_def using loaded qqq_table_dates stale by blast
  qed
  have prices: "get_ticker_prices (tiingo qqq_storage) ''QQQ'' (startDate ?i) (endDate ?i) ?w1 =
      (Inr [qqq_price (Date 2020 1 2), qqq_price (Date 2020 1 3)], ?w2)"
    using qqq_prices_call [of ?w1 _ qqq_prices_body "Date 2020 1 1" "Date 2020 1 3"] p
      qqq_rows_prices
    by (simp add: qqq_storage_def qqq_info_def)
  have enc: "to_parquet plain_engine (DataFrame [qqq_price (Date 2020 1 2), qqq_price (Date 2020 1 3)])
      = Inr qqq_table"
    by (simp add: plain_engine_def qqq_table_def)
  have dir: "fs ?w1 (butlast (cache_file qqq_storage ''QQQ'')) = Some Dir"
    using f by (auto simp: qqq_cache_file qqq_file_def qqq_dir_only_def qqq_cached_def)
  have nodir: "fs ?w1 (cache_file qqq_storage ''QQQ'') \<noteq> Some Dir"
    using f by (auto simp: qqq_cache_file qqq_file_def qqq_dir_only_def qqq_cached_def)
  have upd: "(fs w)(qqq_file \<mapsto> File qqq_table) = qqq_cached"
    using f by (auto simp: qqq_dir_only_def qqq_cached_def)
  have "read plain_engine qqq_storage ''QQQ'' w =
      read_fetch plain_engine qqq_storage ''QQQ'' ?i (cache_file qqq_storage ''QQQ'') ?w1"
    using read_miss_eq [OF meta ft] .
  also have "\<dots> = (read_parquet plain_engine qqq_table,
      ?w2\<lparr>fs := (fs ?w1)(cache_file qqq_storage ''QQQ'' \<mapsto> File qqq_table),
          trace := trace ?w2 @ [WriteFile (cache_file qqq_storage ''QQQ'')]\<rparr>)"
    using read_fetch_ok [OF prices enc dir nodir] .
  finally show ?thesis
    using upd loaded
    by (simp add: qqq_cache_file isoformat_def zero_pad_def digit_char_def)
qed

section \<open>The claims\<close>


text \<open>
  Claim C1. If the metadata call returns \<open>ticker_info\<close>, a cache file exists at the ticker's
  location, the file loads as the table \<open>df\<close>, and the minimum and the maximum of the table's
  dates equal \<open>startDate\<close> and \<open>endDate\<close> of the metadata, then \<open>read\<close> returns \<open>df\<close> in the very
  world the metadata call left: the file system is unchanged (nothing was written) and the
  only events are the log line and the request of the metadata call (no price request).
\<close>

theorem read_cache_hit:
  assumes "get_ticker_info (tiingo self) t w = (Inr ticker_info, w1)"
    and "fs w (cache_file self t) = Some (File b)"
    and "read_parquet eng b = Inr df"
    and "date_column df = Inr ds"
    and "series_min ds = Some (startDate ticker_info)"
    and "series_max ds = Some (endDate ticker_info)"
  shows "read eng self t w = (Inr df, w1) \<and> fs w1 = fs w \<and>
    trace w1 = trace w @ [Log INFO (''Getting ticker info for '' @ t),
                          HttpGet (info_request (tiingo self) t)]"
proof -
  have "w1 = w\<lparr>trace := trace w @ [Log INFO (''Getting ticker info for '' @ t),
                          HttpGet (info_request (tiingo self) t)]\<rparr>"
    using assms(1) by (rule get_ticker_info_Inr)
  then have "fs w1 = fs w" and "trace w1 = trace w @ [Log INFO (''Getting ticker info for '' @ t),
                          HttpGet (info_request (tiingo self) t)]"
    by simp_all
  then show ?thesis
    using read_hit_eq [OF assms] by simp
qed

text \<open>Witness of C1: the cached table of the scenario, with metadata bounds 2020-01-02 and
  2020-01-03.\<close>

theorem read_cache_hit_witness:
  "read plain_engine qqq_storage ''QQQ''
     (qqq_world (qqq_info_body ''2020-01-02'' ''2020-01-03'') qqq_prices_body qqq_cached)
   = (Inr qqq_table,
      \<lparr>provider = qqq_provider (qqq_info_body ''2020-01-02'' ''2020-01-03'') qqq_prices_body,
       fs = qqq_cached,
       trace = [Log INFO ''Getting ticker info for QQQ'', HttpGet (info_request qqq_client ''QQQ'')]\<rparr>)"
proof -
  let ?w = "qqq_world (qqq_info_body ''2020-01-02'' ''2020-01-03'') qqq_prices_body qqq_cached"
  have i: "get_ticker_info (tiingo qqq_storage) ''QQQ'' ?w =
     (Inr (qqq_info (Date 2020 1 2) (Date 2020 1 3)),
      ?w\<lparr>trace := trace ?w @ [Log INFO ''Getting ticker info for QQQ'',
          HttpGet (info_request qqq_client ''QQQ'')]\<rparr>)"
    using qqq_get_ticker_info [OF _ iso_2020_01_02 iso_2020_01_03, of ?w qqq_prices_body]
    by (simp add: qqq_world_def qqq_storage_def)
  have f: "fs ?w (cache_file qqq_storage ''QQQ'') = Some (File qqq_table)"
    by (simp add: qqq_cache_file qqq_world_def qqq_cached_def)
  have l: "read_parquet plain_engine qqq_table = Inr qqq_table"
    by (simp add: plain_engine_def)
  have m: "series_min [Date 2020 1 2, Date 2020 1 3] = Some (startDate (qqq_info (Date 2020 1 2) (Date 2020 1 3)))"
    using qqq_dates_min by (simp add: qqq_info_def)
  have x: "series_max [Date 2020 1 2, Date 2020 1 3] = Some (endDate (qqq_info (Date 2020 1 2) (Date 2020 1 3)))"
    using qqq_dates_max by (simp add: qqq_info_def)
  show ?thesis
    using read_cache_hit [OF i f l qqq_table_dates m x] by (simp add: qqq_world_def)
qed



text \<open>
  Claim C7. A failure of the metadata call is the failure of \<open>read\<close>, in a world with the
  same files. A failure of the price call leaves the files as they were, and when the cache
  lookup falls through to the fetch it is the failure of \<open>read\<close>. The files change only
  after the metadata and the whole price sequence have been obtained.
\<close>

theorem read_failure_writes_nothing:
  assumes meta: "get_ticker_info (tiingo self) t w = (r_info, w1)"
  shows "(\<forall>e. r_info = Inl e \<longrightarrow> read eng self t w = (Inl e, w1) \<and> fs w1 = fs w) \<and>
    (\<forall>ticker_info e w2.
        r_info = Inr ticker_info \<longrightarrow>
        get_ticker_prices (tiingo self) t (startDate ticker_info) (endDate ticker_info) w1
          = (Inl e, w2) \<longrightarrow>
        fs (snd (read eng self t w)) = fs w \<and>
        (\<not> path_exists w (cache_file self t) \<or>
         (\<exists>b df ds. fs w (cache_file self t) = Some (File b) \<and> read_parquet eng b = Inr df \<and>
            date_column df = Inr ds \<and>
            \<not> (series_min ds = Some (startDate ticker_info) \<and>
               series_max ds = Some (endDate ticker_info)))
         \<longrightarrow> read eng self t w = (Inl e, w2) \<and> fs w2 = fs w)) \<and>
    (fs (snd (read eng self t w)) \<noteq> fs w \<longrightarrow>
       (\<exists>ticker_info prices w2. r_info = Inr ticker_info \<and>
          get_ticker_prices (tiingo self) t (startDate ticker_info) (endDate ticker_info) w1
            = (Inr prices, w2)))"
proof (intro conjI allI impI)
  fix e assume "r_info = Inl e"
  then show "read eng self t w = (Inl e, w1)"
    using read_info_fail meta by simp
next
  show "fs w1 = fs w"
    using get_ticker_info_fs [of "tiingo self" t w] meta by simp
next
  fix ticker_info e w2
  assume i: "r_info = Inr ticker_info"
    and p: "get_ticker_prices (tiingo self) t (startDate ticker_info) (endDate ticker_info) w1 = (Inl e, w2)"
  show "fs (snd (read eng self t w)) = fs w"
  proof (rule ccontr)
    assume "fs (snd (read eng self t w)) \<noteq> fs w"
    from read_fs [OF this] show False
      using meta i p by auto
  qed
next
  fix ticker_info e w2
  assume i: "r_info = Inr ticker_info"
    and p: "get_ticker_prices (tiingo self) t (startDate ticker_info) (endDate ticker_info) w1 = (Inl e, w2)"
    and m: "\<not> path_exists w (cache_file self t) \<or>
         (\<exists>b df ds. fs w (cache_file self t) = Some (File b) \<and> read_parquet eng b = Inr df \<and>
            date_column df = Inr ds \<and>
            \<not> (series_min ds = Some (startDate ticker_info) \<and>
               series_max ds = Some (endDate ticker_info)))"
  have ft: "falls_through eng w (cache_file self t) ticker_info"
    using m by (simp add: falls_through_def)
  have "read eng self t w = read_fetch eng self t ticker_info (cache_file self t) w1"
    using read_miss_eq [OF _ ft] meta i by simp
  then show "read eng self t w = (Inl e, w2)"
    using read_fetch_fail [OF p] by simp
  have "fs w2 = fs w1"
    using get_ticker_prices_fs [of "tiingo self" t "startDate ticker_info" "endDate ticker_info" w1] p
    by simp
  then show "fs w2 = fs w"
    using get_ticker_info_fs [of "tiingo self" t w] meta by simp
next
  assume "fs (snd (read eng self t w)) \<noteq> fs w"
  from read_fs [OF this] show "\<exists>ticker_info prices w2. r_info = Inr ticker_info \<and>
          get_ticker_prices (tiingo self) t (startDate ticker_info) (endDate ticker_info) w1
            = (Inr prices, w2)"
    using meta by auto
qed

text \<open>
  Witness of C7: an unknown ticker (status 404 on the metadata request), and a price
  response whose body is an error object instead of an array.
\<close>

theorem read_failure_writes_nothing_witness:
  "fst (read plain_engine qqq_storage ''ZZZ''
          (qqq_world (qqq_info_body ''2020-01-01'' ''2020-01-03'') qqq_prices_body qqq_cached))
     = Inl ErrorTickerNotFound \<and>
   fs (snd (read plain_engine qqq_storage ''ZZZ''
          (qqq_world (qqq_info_body ''2020-01-01'' ''2020-01-03'') qqq_prices_body qqq_cached)))
     = qqq_cached \<and>
   fst (read plain_engine qqq_storage ''QQQ''
          (qqq_world (qqq_info_body ''2020-01-01'' ''2020-01-03'') qqq_error_body qqq_dir_only))
     = Inl TypeError \<and>
   fs (snd (read plain_engine qqq_storage ''QQQ''
          (qqq_world (qqq_info_body ''2020-01-01'' ''2020-01-03'') qqq_error_body qqq_dir_only)))
     = qqq_dir_only"
proof -
  let ?ib = "qqq_info_body ''2020-01-01'' ''2020-01-03''"
  let ?wa = "qqq_world ?ib qqq_prices_body qqq_cached"
  let ?wb = "qqq_world ?ib qqq_error_body qqq_dir_only"
  let ?i = "qqq_info (Date 2020 1 1) (Date 2020 1 3)"
  let ?wa1 = "?wa\<lparr>trace := trace ?wa @ [Log INFO ''Getting ticker info for ZZZ'',
          HttpGet (info_request qqq_client ''ZZZ''),
          Log ERROR ''Failed to get ticker info for ZZZ: 404 Not found'']\<rparr>"
  let ?wb1 = "?wb\<lparr>trace := trace ?wb @ [Log INFO ''Getting ticker info for QQQ'',
          HttpGet (info_request qqq_client ''QQQ'')]\<rparr>"
  let ?wb2 = "?wb1\<lparr>trace := trace ?wb1 @
        [Log INFO (''Getting ticker prices for QQQ from '' @ isoformat (Date 2020 1 1) @ '' to '' @
            isoformat (Date 2020 1 3)),
         HttpGet (prices_request qqq_client ''QQQ'' (Date 2020 1 1) (Date 2020 1 3))]\<rparr>"
  have meta_a: "get_ticker_info (tiingo qqq_storage) ''ZZZ'' ?wa = (Inl ErrorTickerNotFound, ?wa1)"
    using qqq_unknown_ticker [of ?wa ?ib qqq_prices_body]
    by (simp add: qqq_world_def qqq_storage_def)
  have a: "read plain_engine qqq_storage ''ZZZ'' ?wa = (Inl ErrorTickerNotFound, ?wa1) \<and>
      fs ?wa1 = fs ?wa"
    using read_failure_writes_nothing [OF meta_a, THEN conjunct1, rule_format, OF refl] .
  have meta_b: "get_ticker_info (tiingo qqq_storage) ''QQQ'' ?wb = (Inr ?i, ?wb1)"
    using qqq_get_ticker_info [OF _ iso_2020_01_01 iso_2020_01_03, of ?wb qqq_error_body]
    by (simp add: qqq_world_def qqq_storage_def)
  have prices_b: "get_ticker_prices (tiingo qqq_storage) ''QQQ'' (startDate ?i) (endDate ?i) ?wb1 =
      (Inl TypeError, ?wb2)"
    using qqq_prices_call [of ?wb1 ?ib qqq_error_body "Date 2020 1 1" "Date 2020 1 3"]
      qqq_error_prices
    by (simp add: qqq_world_def qqq_storage_def qqq_info_def)
  have absent: "\<not> path_exists ?wb (cache_file qqq_storage ''QQQ'')"
    by (simp add: path_exists_def qqq_cache_file qqq_world_def qqq_dir_only_def qqq_file_def)
  have b: "read plain_engine qqq_storage ''QQQ'' ?wb = (Inl TypeError, ?wb2) \<and> fs ?wb2 = fs ?wb"
    using read_failure_writes_nothing [OF meta_b, THEN conjunct2, THEN conjunct1, rule_format,
        OF refl prices_b, THEN conjunct2] absent
    by blast
  show ?thesis
    using a b by (simp add: qqq_world_def)
qed


text \<open>
  Claim C5. The result of \<open>get_ticker_prices\<close> is never \<open>ErrorTickerNotFound\<close>, and it is the
  same for any two responses with the same decoded body, whatever their status codes and
  texts. For a body that is a JSON array the result is the list of the records of the
  elements, in order, and a failure is the failure of one element; for the empty array it
  is the empty list; for a body that is no JSON document it is the decoding failure.
\<close>

theorem get_ticker_prices_ignores_status:
  assumes "provider w (prices_request self t s e) = Inr r"
  shows "fst (get_ticker_prices self t s e w) \<noteq> Inl ErrorTickerNotFound \<and>
    (\<forall>w' r'. provider w' (prices_request self t s e) = Inr r' \<longrightarrow> json_body r' = json_body r \<longrightarrow>
        fst (get_ticker_prices self t s e w') = fst (get_ticker_prices self t s e w)) \<and>
    (\<forall>js. json_body r = Some (JArr js) \<longrightarrow>
        (\<forall>ps. fst (get_ticker_prices self t s e w) = Inr ps \<longleftrightarrow>
            list_all2 (\<lambda>j p. from_json j = Inr p) js ps) \<and>
        (\<forall>x. fst (get_ticker_prices self t s e w) = Inl x \<longrightarrow>
            (\<exists>j \<in> set js. from_json j = Inl x))) \<and>
    (json_body r = Some (JArr []) \<longrightarrow> fst (get_ticker_prices self t s e w) = Inr []) \<and>
    (json_body r = None \<longrightarrow> fst (get_ticker_prices self t s e w) = Inl JSONDecodeError)"
proof -
  have v: "fst (get_ticker_prices self t s e w) =
      bind (response_json r) (\<lambda>j. bind (iterate j) from_json_each)"
    using assms by (simp add: get_ticker_prices_eq)
  have 1: "fst (get_ticker_prices self t s e w) \<noteq> Inl ErrorTickerNotFound"
  proof
    assume "fst (get_ticker_prices self t s e w) = Inl ErrorTickerNotFound"
    then have "bind (response_json r) (\<lambda>j. bind (iterate j) from_json_each) = Inl ErrorTickerNotFound"
      using v by simp
    from parse_prices_error [OF this] show False
      by (simp add: ErrorTickerNotFound_def)
  qed
  have 2: "fst (get_ticker_prices self t s e w') = fst (get_ticker_prices self t s e w)"
    if "provider w' (prices_request self t s e) = Inr r'" and "json_body r' = json_body r"
    for w' :: "'c world" and r'
    using that v by (simp add: get_ticker_prices_eq response_json_def)
  have 3: "(\<forall>ps. fst (get_ticker_prices self t s e w) = Inr ps \<longleftrightarrow>
            list_all2 (\<lambda>j p. from_json j = Inr p) js ps) \<and>
        (\<forall>x. fst (get_ticker_prices self t s e w) = Inl x \<longrightarrow>
            (\<exists>j \<in> set js. from_json j = Inl x))"
    if "json_body r = Some (JArr js)" for js
    using that v by (simp add: response_json_def from_json_each_Inr from_json_each_Inl)
  have 4: "fst (get_ticker_prices self t s e w) = Inr []" if "json_body r = Some (JArr [])"
    using that v by (simp add: response_json_def)
  have 5: "fst (get_ticker_prices self t s e w) = Inl JSONDecodeError" if "json_body r = None"
    using that v by (simp add: response_json_def)
  show ?thesis
    using 1 2 3 4 5 by blast
qed



text \<open>
  Witness of C5: the two price rows of the scenario, and a response with status 404 whose
  body is an error object (the result is a \<open>TypeError\<close>, since iterating the object yields its
  key).
\<close>

theorem get_ticker_prices_ignores_status_witness:
  "fst (get_ticker_prices qqq_client ''QQQ'' (Date 2020 1 1) (Date 2020 1 3)
          (qqq_world (qqq_info_body ''2020-01-01'' ''2020-01-03'') qqq_prices_body qqq_cached))
     = Inr [qqq_price (Date 2020 1 2), qqq_price (Date 2020 1 3)] \<and>
   fst (get_ticker_prices qqq_client ''ZZZ'' (Date 2020 1 1) (Date 2020 1 3)
          (qqq_world (qqq_info_body ''2020-01-01'' ''2020-01-03'') qqq_prices_body qqq_cached))
     \<noteq> Inl ErrorTickerNotFound"
proof -
  let ?ib = "qqq_info_body ''2020-01-01'' ''2020-01-03''"
  let ?w = "qqq_world ?ib qqq_prices_body qqq_cached"
  have pa: "provider ?w (prices_request qqq_client ''QQQ'' (Date 2020 1 1) (Date 2020 1 3)) =
      Inr \<lparr>status_code = 200, text_body = ''(prices)'', json_body = Some qqq_prices_body\<rparr>"
    by (simp add: qqq_world_def qqq_provider_prices)
  have rows: "list_all2 (\<lambda>j p. from_json j = Inr p) [qqq_row ''2020-01-02'', qqq_row ''2020-01-03'']
      [qqq_price (Date 2020 1 2), qqq_price (Date 2020 1 3)]"
    using qqq_row_price [OF iso_2020_01_02] qqq_row_price [OF iso_2020_01_03] by simp
  have a: "fst (get_ticker_prices qqq_client ''QQQ'' (Date 2020 1 1) (Date 2020 1 3) ?w)
      = Inr [qqq_price (Date 2020 1 2), qqq_price (Date 2020 1 3)]"
    using get_ticker_prices_ignores_status [OF pa, THEN conjunct2, THEN conjunct2, THEN conjunct1,
        rule_format, of "[qqq_row ''2020-01-02'', qqq_row ''2020-01-03'']", THEN conjunct1,
        rule_format, of "[qqq_price (Date 2020 1 2), qqq_price (Date 2020 1 3)]"] rows
    by (simp add: qqq_prices_body_def)
  have pb: "provider ?w (prices_request qqq_client ''ZZZ'' (Date 2020 1 1) (Date 2020 1 3)) =
      Inr \<lparr>status_code = 404, text_body = ''Not found'', json_body = Some qqq_error_body\<rparr>"
    by (simp add: qqq_world_def qqq_provider_prices_unknown)
  have b: "fst (get_ticker_prices qqq_client ''ZZZ'' (Date 2020 1 1) (Date 2020 1 3) ?w)
      \<noteq> Inl ErrorTickerNotFound"
    using get_ticker_prices_ignores_status [OF pb, THEN conjunct1] .
  show ?thesis
    using a b by simp
qed



text \<open>
  Claim C8. Start in a world with nothing at \<^verbatim>\<open>.prices\<close> and nothing at the cache file of
  \<^verbatim>\<open>QQQ\<close>, a provider whose metadata has \<open>startDate\<close> 2020-01-01 and \<open>endDate\<close> 2020-01-03 and
  whose price response is an array of two elements that map to rows dated 2020-01-02 and
  2020-01-03, and an engine that writes the table of these rows and reads it back. Then the
  constructor creates the directory, and \<open>read\<close> returns the table with exactly these two
  rows, in ascending order of date, the only change to the files being the one cache file,
  written once.
\<close>

theorem read_first_fetch:
  assumes fresh: "fs w [''.prices''] = None" "fs w [''.prices'', ''QQQ.parquet''] = None"
    and info: "provider w (info_request client ''QQQ'') = Inr r1" "status_code r1 = 200"
      "TickerInfo_of r1 = Inr ticker_info"
      "startDate ticker_info = Date 2020 1 1" "endDate ticker_info = Date 2020 1 3"
    and prices: "provider w (prices_request client ''QQQ'' (Date 2020 1 1) (Date 2020 1 3)) = Inr r2"
      "json_body r2 = Some (JArr [j1, j2])" "from_json j1 = Inr p1" "from_json j2 = Inr p2"
      "date p1 = Date 2020 1 2" "date p2 = Date 2020 1 3"
    and engine: "to_parquet eng (DataFrame [p1, p2]) = Inr b"
      "read_parquet eng b = Inr (DataFrame [p1, p2])"
  shows "TickerPriceStorage_init client ''.prices'' w =
      (Inr \<lparr>tiingo = client, path = [''.prices'']\<rparr>, w\<lparr>fs := (fs w)([''.prices''] \<mapsto> Dir)\<rparr>) \<and>
    read eng \<lparr>tiingo = client, path = [''.prices'']\<rparr> ''QQQ''
        (w\<lparr>fs := (fs w)([''.prices''] \<mapsto> Dir)\<rparr>) =
      (Inr \<lparr>columns = field_names, rows = [p1, p2]\<rparr>,
       w\<lparr>fs := (fs w)([''.prices''] \<mapsto> Dir, [''.prices'', ''QQQ.parquet''] \<mapsto> File b),
         trace := trace w @
           [Log INFO ''Getting ticker info for QQQ'',
            HttpGet (info_request client ''QQQ''),
            Log INFO ''Getting ticker prices for QQQ from 2020-01-01 to 2020-01-03'',
            HttpGet (prices_request client ''QQQ'' (Date 2020 1 1) (Date 2020 1 3)),
            WriteFile [''.prices'', ''QQQ.parquet'']]\<rparr>) \<and>
    map date [p1, p2] = [Date 2020 1 2, Date 2020 1 3] \<and>
    date_less (Date 2020 1 2) (Date 2020 1 3)"
proof -
  let ?self = "\<lparr>tiingo = client, path = [''.prices'']\<rparr>"
  let ?w0 = "w\<lparr>fs := (fs w)([''.prices''] \<mapsto> Dir)\<rparr>"
  let ?p = "[''.prices'', ''QQQ.parquet'']"
  let ?w1 = "?w0\<lparr>trace := trace ?w0 @ [Log INFO (''Getting ticker info for '' @ ''QQQ''),
      HttpGet (info_request client ''QQQ'')]\<rparr>"
  let ?w2 = "?w1\<lparr>trace := trace ?w1 @
      [Log INFO (''Getting ticker prices for '' @ ''QQQ'' @ '' from '' @
          isoformat (Date 2020 1 1) @ '' to '' @ isoformat (Date 2020 1 3)),
       HttpGet (prices_request client ''QQQ'' (Date 2020 1 1) (Date 2020 1 3))]\<rparr>"
  have init: "TickerPriceStorage_init client ''.prices'' w = (Inr ?self, ?w0)"
    using fresh(1) by (simp add: TickerPriceStorage_init_def)
  have cf: "cache_file ?self ''QQQ'' = ?p"
    by (simp add: cache_file_def)
  have meta: "get_ticker_info (tiingo ?self) ''QQQ'' ?w0 = (Inr ticker_info, ?w1)"
    using info(1,2,3) by (simp add: get_ticker_info_eq)
  have ft: "falls_through eng ?w0 (cache_file ?self ''QQQ'') ticker_info"
    using fresh(2) by (simp add: falls_through_def path_exists_def cf)
  have rows: "from_json_each [j1, j2] = Inr [p1, p2]"
    using prices(3,4) by simp
  have fetch: "get_ticker_prices (tiingo ?self) ''QQQ'' (startDate ticker_info) (endDate ticker_info) ?w1
      = (Inr [p1, p2], ?w2)"
    using prices(1,2) rows info(4,5) by (simp add: get_ticker_prices_eq response_json_def)
  have "read eng ?self ''QQQ'' ?w0 = read_fetch eng ?self ''QQQ'' ticker_info ?p ?w1"
    using read_miss_eq [OF meta ft] cf by simp
  also have "\<dots> = (read_parquet eng b,
      ?w2\<lparr>fs := (fs ?w1)(?p \<mapsto> File b), trace := trace ?w2 @ [WriteFile ?p]\<rparr>)"
    using read_fetch_ok [OF fetch engine(1), of ?p] fresh(2) by simp
  finally have r: "read eng ?self ''QQQ'' ?w0 =
      (read_parquet eng b,
       ?w2\<lparr>fs := (fs ?w1)(?p \<mapsto> File b), trace := trace ?w2 @ [WriteFile ?p]\<rparr>)" .
  have df: "DataFrame [p1, p2] = \<lparr>columns = field_names, rows = [p1, p2]\<rparr>"
    by (simp add: DataFrame_def)
  have "date_less (Date 2020 1 2) (Date 2020 1 3)"
    by (simp add: date_less_def)
  then show ?thesis
    using init r engine(2) df prices(5,6)
    by (simp add: isoformat_def zero_pad_def digit_char_def)
qed

text \<open>
  Witness of C8: the scenario, from the empty file system.
\<close>

theorem read_first_fetch_witness:
  "TickerPriceStorage_init qqq_client ''.prices''
      (qqq_world (qqq_info_body ''2020-01-01'' ''2020-01-03'') qqq_prices_body Map.empty)
     = (Inr qqq_storage,
        qqq_world (qqq_info_body ''2020-01-01'' ''2020-01-03'') qqq_prices_body qqq_dir_only) \<and>
   read plain_engine qqq_storage ''QQQ''
      (qqq_world (qqq_info_body ''2020-01-01'' ''2020-01-03'') qqq_prices_body qqq_dir_only)
     = (Inr qqq_table,
        \<lparr>provider = qqq_provider (qqq_info_body ''2020-01-01'' ''2020-01-03'') qqq_prices_body,
         fs = qqq_cached,
         trace = [Log INFO ''Getting ticker info for QQQ'',
                  HttpGet (info_request qqq_client ''QQQ''),
                  Log INFO ''Getting ticker prices for QQQ from 2020-01-01 to 2020-01-03'',
                  HttpGet (prices_request qqq_client ''QQQ'' (Date 2020 1 1) (Date 2020 1 3)),
                  WriteFile qqq_file]\<rparr>)"
proof -
  let ?ib = "qqq_info_body ''2020-01-01'' ''2020-01-03''"
  let ?w = "qqq_world ?ib qqq_prices_body Map.empty"
  let ?i = "qqq_info (Date 2020 1 1) (Date 2020 1 3)"
  let ?r1 = "\<lparr>status_code = 200, text_body = ''(metadata)'', json_body = Some ?ib\<rparr>"
  let ?r2 = "\<lparr>status_code = 200, text_body = ''(prices)'', json_body = Some qqq_prices_body\<rparr>"
  have f1: "fs ?w [''.prices''] = None" and f2: "fs ?w [''.prices'', ''QQQ.parquet''] = None"
    by (simp_all add: qqq_world_def)
  have i1: "provider ?w (info_request qqq_client ''QQQ'') = Inr ?r1"
    by (simp add: qqq_world_def qqq_provider_info)
  have i2: "status_code ?r1 = 200"
    by simp
  have i3: "TickerInfo_of ?r1 = Inr ?i"
    using qqq_TickerInfo_of [OF iso_2020_01_01 iso_2020_01_03] .
  have i4: "startDate ?i = Date 2020 1 1" and i5: "endDate ?i = Date 2020 1 3"
    by (simp_all add: qqq_info_def)
  have p1: "provider ?w (prices_request qqq_client ''QQQ'' (Date 2020 1 1) (Date 2020 1 3)) = Inr ?r2"
    by (simp add: qqq_world_def qqq_provider_prices)
  have p2: "json_body ?r2 = Some (JArr [qqq_row ''2020-01-02'', qqq_row ''2020-01-03''])"
    by (simp add: qqq_prices_body_def)
  have p5: "date (qqq_price (Date 2020 1 2)) = Date 2020 1 2"
    and p6: "date (qqq_price (Date 2020 1 3)) = Date 2020 1 3"
    by (simp_all add: qqq_price_def)
  have e1: "to_parquet plain_engine (DataFrame [qqq_price (Date 2020 1 2), qqq_price (Date 2020 1 3)])
      = Inr qqq_table"
    by (simp add: plain_engine_def qqq_table_def)
  have e2: "read_parquet plain_engine qqq_table
      = Inr (DataFrame [qqq_price (Date 2020 1 2), qqq_price (Date 2020 1 3)])"
    by (simp add: plain_engine_def qqq_table_def)
  note t = read_first_fetch [OF f1 f2 i1 i2 i3 i4 i5 p1 p2
      qqq_row_price [OF iso_2020_01_02] qqq_row_price [OF iso_2020_01_03] p5 p6 e1 e2]
  have a: "TickerPriceStorage_init qqq_client ''.prices'' ?w
      = (Inr qqq_storage, qqq_world ?ib qqq_prices_body qqq_dir_only)"
    using t [THEN conjunct1] by (simp add: qqq_storage_def qqq_world_def qqq_dir_only_def)
  have b: "read plain_engine qqq_storage ''QQQ'' (qqq_world ?ib qqq_prices_body qqq_dir_only)
     = (Inr qqq_table,
        \<lparr>provider = qqq_provider ?ib qqq_prices_body, fs = qqq_cached,
         trace = [Log INFO ''Getting ticker info for QQQ'',
                  HttpGet (info_request qqq_client ''QQQ''),
                  Log INFO ''Getting ticker prices for QQQ from 2020-01-01 to 2020-01-03'',
                  HttpGet (prices_request qqq_client ''QQQ'' (Date 2020 1 1) (Date 2020 1 3)),
                  WriteFile qqq_file]\<rparr>)"
    using t [THEN conjunct2, THEN conjunct1]
    by (simp add: qqq_storage_def qqq_world_def qqq_dir_only_def qqq_cached_def qqq_file_def
        qqq_table_def DataFrame_def)
  show ?thesis
    using a b by simp
qed


text \<open>
  Claim C3, amended. If a call of \<open>read\<close> returns a table that has a date column, then the
  next call, with the provider unchanged, returns the same table and leaves the same files.
  It takes the hit path (the metadata request only) exactly when the minimum and the
  maximum of the table's dates are the metadata's \<open>startDate\<close> and \<open>endDate\<close>; otherwise it
  requests the prices again and writes the file again, with the same content.
\<close>

theorem read_twice:
  assumes first: "read eng self t w = (Inr df, w1)"
    and col: "date_column df = Inr ds"
  shows "fst (read eng self t w1) = Inr df \<and>
    fs (snd (read eng self t w1)) = fs w1 \<and>
    (\<exists>ticker_info. fst (get_ticker_info (tiingo self) t w) = Inr ticker_info \<and>
       trace (snd (read eng self t w1)) =
         (if series_min ds = Some (startDate ticker_info) \<and>
             series_max ds = Some (endDate ticker_info)
          then trace w1 @
            [Log INFO (''Getting ticker info for '' @ t), HttpGet (info_request (tiingo self) t)]
          else trace w1 @
            [Log INFO (''Getting ticker info for '' @ t), HttpGet (info_request (tiingo self) t),
             Log INFO (''Getting ticker prices for '' @ t @ '' from '' @
                isoformat (startDate ticker_info) @ '' to '' @ isoformat (endDate ticker_info)),
             HttpGet (prices_request (tiingo self) t (startDate ticker_info) (endDate ticker_info)),
             WriteFile (cache_file self t)]))"
proof -
  let ?p = "cache_file self t"
  let ?c = "tiingo self"
  let ?w1' = "w1\<lparr>trace := trace w1 @
      [Log INFO (''Getting ticker info for '' @ t), HttpGet (info_request ?c t)]\<rparr>"
  from first show ?thesis
  proof (cases rule: read_Inr)
    case (hit i b ds')
    have same: "provider w1 = provider w" and f: "fs w1 = fs w"
      using get_ticker_info_provider [of ?c t w] get_ticker_info_fs [of ?c t w] hit(1) by simp_all
    have meta: "get_ticker_info ?c t w1 = (Inr i, ?w1')"
      using get_ticker_info_again [OF hit(1) same] .
    have "read eng self t w1 = (Inr df, ?w1')"
      using read_hit_eq [OF meta _ hit(3,4,5,6)] hit(2) f by simp
    moreover have "ds' = ds"
      using hit(4) col by simp
    ultimately show ?thesis
      using hit(1,5,6) by auto
  next
    case (fetch i wa)
    from fetch(3) obtain prices wb b where
      g: "get_ticker_prices ?c t (startDate i) (endDate i) wa = (Inr prices, wb)"
      and enc: "to_parquet eng (DataFrame prices) = Inr b"
      and dir: "fs wa (butlast ?p) = Some Dir" "fs wa ?p \<noteq> Some Dir"
      and dec: "read_parquet eng b = Inr df"
      and w1: "w1 = wb\<lparr>fs := (fs wa)(?p \<mapsto> File b), trace := trace wb @ [WriteFile ?p]\<rparr>"
      by (rule read_fetch_Inr)
    have pa: "provider wa = provider w"
      using get_ticker_info_provider [of ?c t w] fetch(1) by simp
    have pb: "provider wb = provider wa"
      using get_ticker_prices_provider [of ?c t "startDate i" "endDate i" wa] g by simp
    have same: "provider w1 = provider w"
      using w1 pa pb by simp
    have there: "fs w1 ?p = Some (File b)"
      using w1 by simp
    have meta: "get_ticker_info ?c t w1 = (Inr i, ?w1')"
      using get_ticker_info_again [OF fetch(1) same] .
    show ?thesis
    proof (cases "series_min ds = Some (startDate i) \<and> series_max ds = Some (endDate i)")
      case True
      then have "read eng self t w1 = (Inr df, ?w1')"
        using read_hit_eq [OF meta there dec col] by simp
      then show ?thesis
        using fetch(1) True by auto
    next
      case False
      let ?w2' = "?w1'\<lparr>trace := trace ?w1' @
         [Log INFO (''Getting ticker prices for '' @ t @ '' from '' @ isoformat (startDate i) @
             '' to '' @ isoformat (endDate i)),
          HttpGet (prices_request ?c t (startDate i) (endDate i))]\<rparr>"
      have ft: "falls_through eng w1 ?p i"
        using there dec col False by (auto simp: falls_through_def)
      have g': "get_ticker_prices ?c t (startDate i) (endDate i) ?w1' = (Inr prices, ?w2')"
        using get_ticker_prices_again [OF g, of ?w1'] same pa by simp
      have dir': "fs ?w1' (butlast ?p) = Some Dir"
        using w1 dir(1) cache_file_neq_path [of self t] by (simp add: butlast_cache_file)
      have nodir': "fs ?w1' ?p \<noteq> Some Dir"
        using there by simp
      have "read eng self t w1 = read_fetch eng self t i ?p ?w1'"
        using read_miss_eq [OF meta ft] .
      also have "\<dots> = (read_parquet eng b,
          ?w2'\<lparr>fs := (fs ?w1')(?p \<mapsto> File b), trace := trace ?w2' @ [WriteFile ?p]\<rparr>)"
        using read_fetch_ok [OF g' enc dir' nodir'] .
      finally have r: "read eng self t w1 = (read_parquet eng b,
          ?w2'\<lparr>fs := (fs ?w1')(?p \<mapsto> File b), trace := trace ?w2' @ [WriteFile ?p]\<rparr>)" .
      have "(fs w1)(?p \<mapsto> File b) = fs w1"
        using there by (simp add: fun_upd_idem)
      then show ?thesis
        using r dec fetch(1) False by auto
    qed
  qed
qed

text \<open>
  Claim C3 as stated fails in the scenario of section 8 of the spec: the provider reports
  \<open>startDate\<close> 2020-01-01 and its first row is dated 2020-01-02, so the second call finds the
  bounds different, requests the prices and writes the file again.
\<close>

theorem read_twice_counterexample:
  "read plain_engine qqq_storage ''QQQ''
      (qqq_world (qqq_info_body ''2020-01-01'' ''2020-01-03'') qqq_prices_body qqq_dir_only)
     = (Inr qqq_table, qqq_after_first) \<and>
   read plain_engine qqq_storage ''QQQ'' qqq_after_first
     = (Inr qqq_table,
        qqq_after_first\<lparr>trace := trace qqq_after_first @
          [Log INFO ''Getting ticker info for QQQ'',
           HttpGet (info_request qqq_client ''QQQ''),
           Log INFO ''Getting ticker prices for QQQ from 2020-01-01 to 2020-01-03'',
           HttpGet (prices_request qqq_client ''QQQ'' (Date 2020 1 1) (Date 2020 1 3)),
           WriteFile qqq_file]\<rparr>)"
proof -
  let ?w = "qqq_world (qqq_info_body ''2020-01-01'' ''2020-01-03'') qqq_prices_body qqq_dir_only"
  have a: "read plain_engine qqq_storage ''QQQ'' ?w = (Inr qqq_table, qqq_after_first)"
    using qqq_refetch [of ?w] by (simp add: qqq_world_def qqq_after_first_def)
  have b: "read plain_engine qqq_storage ''QQQ'' qqq_after_first
     = (Inr qqq_table,
        qqq_after_first\<lparr>trace := trace qqq_after_first @
          [Log INFO ''Getting ticker info for QQQ'',
           HttpGet (info_request qqq_client ''QQQ''),
           Log INFO ''Getting ticker prices for QQQ from 2020-01-01 to 2020-01-03'',
           HttpGet (prices_request qqq_client ''QQQ'' (Date 2020 1 1) (Date 2020 1 3)),
           WriteFile qqq_file]\<rparr>)"
    using qqq_refetch [of qqq_after_first] by (simp add: qqq_after_first_def)
  show ?thesis
    using a b by simp
qed

text \<open>
  Witness of the amended C3: the second read of the scenario.
\<close>

theorem read_twice_witness:
  "fst (read plain_engine qqq_storage ''QQQ'' qqq_after_first) = Inr qqq_table \<and>
   fs (snd (read plain_engine qqq_storage ''QQQ'' qqq_after_first)) = qqq_cached"
proof -
  let ?w = "qqq_world (qqq_info_body ''2020-01-01'' ''2020-01-03'') qqq_prices_body qqq_dir_only"
  have first: "read plain_engine qqq_storage ''QQQ'' ?w = (Inr qqq_table, qqq_after_first)"
    using qqq_refetch [of ?w] by (simp add: qqq_world_def qqq_after_first_def)
  show ?thesis
    using read_twice [OF first qqq_table_dates] by (simp add: qqq_after_first_def)
qed

end
